theory Spec2Isabelle
  imports Complex_Main
begin

section \<open>Axial BOTPT: \<^verbatim>\<open>parse_and_build.py\<close>\<close>

text \<open>
  The script reads every \<^verbatim>\<open>.dat\<close> file below \<^verbatim>\<open>data/raw\<close>, guesses the time and the
  value column, converts the values to kPa, merges the files of one station, averages
  rows with the same timestamp, thins the series out and writes one JSON document.

  Conventions of the embedding:
  \<^item> a text is a \<open>string\<close> of ASCII characters, a file is the list of its lines (without
    the line terminators);
  \<^item> an instant (pandas \<^verbatim>\<open>Timestamp\<close>, always UTC here) is an \<open>int\<close>: the nanoseconds
    since 1970-01-01T00:00:00Z;
  \<^item> a pressure value (a Python float) is a \<open>pyfloat\<close>: a rational number, an infinity
    or NaN. A finite result is kept exactly, so the rounding of the binary floating point
    arithmetic is not modelled; a result beyond the range of a double is an infinity. A
    missing value is NaN, as in pandas, and a missing timestamp (NaT) is \<open>None\<close>;
  \<^item> an exception is a value \<open>Inl e\<close> of a sum type.
\<close>

subsection \<open>Configuration\<close>

text \<open>The module-level settings (lines 17 to 24). The directories are fixed.\<close>

record config =
  ASSUME_UNITS :: string
  LOCAL_TZ :: string
  RESAMPLE_RULE :: string

definition default_config :: config where
  "default_config = \<lparr>ASSUME_UNITS = ''psi'', LOCAL_TZ = ''UTC'', RESAMPLE_RULE = ''15min''\<rparr>"

definition RAW_DIR :: string where
  "RAW_DIR = ''data/raw''"

definition OUT_DIR :: string where
  "OUT_DIR = ''site/data''"

definition PSI_TO_KPA :: rat where
  "PSI_TO_KPA = 689475729 / 100000000"

subsection \<open>Python strings\<close>

text \<open>\<^verbatim>\<open>str.lower\<close> and \<^verbatim>\<open>str.strip\<close> on ASCII text.\<close>

definition lower_char :: "char \<Rightarrow> char" where
  "lower_char c =
     (case map_of (zip ''ABCDEFGHIJKLMNOPQRSTUVWXYZ'' ''abcdefghijklmnopqrstuvwxyz'') c of
        Some l \<Rightarrow> l
      | None \<Rightarrow> c)"

definition lower :: "string \<Rightarrow> string" where
  "lower s = map lower_char s"

definition is_space :: "char \<Rightarrow> bool" where
  "is_space c \<longleftrightarrow>
     c \<in> set [CHR 0x09, CHR 0x0A, CHR 0x0B, CHR 0x0C, CHR 0x0D,
               CHR 0x1C, CHR 0x1D, CHR 0x1E, CHR 0x1F, CHR '' '']"

definition strip :: "string \<Rightarrow> string" where
  "strip s = rev (dropWhile is_space (rev (dropWhile is_space s)))"

text \<open>\<^verbatim>\<open>sep.join(parts)\<close>.\<close>

fun join :: "string \<Rightarrow> string list \<Rightarrow> string" where
  "join sep [] = []"
| "join sep [p] = p"
| "join sep (p # q # ps) = p @ sep @ join sep (q # ps)"

text \<open>\<^verbatim>\<open>xs.index(k)\<close>, called only after \<^verbatim>\<open>k in xs\<close> was checked.\<close>

fun index :: "'a list \<Rightarrow> 'a \<Rightarrow> nat" where
  "index [] k = 0"
| "index (x # xs) k = (if x = k then 0 else Suc (index xs k))"

subsection \<open>Column inference: \<^verbatim>\<open>_find_cols\<close>\<close>

definition time_keys :: "string list" where
  "time_keys = [''time'', ''timestamp'', ''date'', ''datetime'']"

definition val_keys :: "string list" where
  "val_keys = [''pressure'', ''prs'', ''kpa'', ''psi'', ''value'', ''val'']"

text \<open>
  The two \<^verbatim>\<open>for k in keys: if k in lc: idx = lc.index(k); break\<close> loops: the position of
  the first key of the priority list that occurs among the labels, \<open>None\<close> when no key
  occurs.
\<close>

fun first_key :: "string list \<Rightarrow> string list \<Rightarrow> nat option" where
  "first_key [] lc = None"
| "first_key (k # ks) lc = (if k \<in> set lc then Some (index lc k) else first_key ks lc)"

text \<open>
  \<^verbatim>\<open>_find_cols\<close> returns the labels \<^verbatim>\<open>df.columns[t_idx], df.columns[v_idx]\<close>, which
  \<^verbatim>\<open>load_dat\<close> uses to select the columns again. pandas makes the labels of a frame
  it reads distinct, so a label stands for its position; the embedding returns the two
  positions. The function is called on frames with at least one column only.
\<close>

definition find_cols :: "string list \<Rightarrow> nat \<times> nat" where
  "find_cols cols =
     (let lc = map (\<lambda>c. strip (lower c)) cols;
          t_idx = first_key time_keys lc;
          v_idx = first_key val_keys lc;
          t_idx = (case t_idx of None \<Rightarrow> 0 | Some i \<Rightarrow> i);
          v_idx = (case v_idx of
                     None \<Rightarrow>
                       (let v = (if length cols > 1 then 1 else 0)
                        in if v = t_idx \<and> length cols > 1 then 1 else v)
                   | Some i \<Rightarrow> i)
      in (t_idx, v_idx))"

subsection \<open>Reading a file: \<^verbatim>\<open>pandas.read_csv\<close>\<close>

text \<open>
  The library call \<^verbatim>\<open>pd.read_csv(path, sep=..., engine="python", comment="#",
  na_values=["", "NA", "NaN"])\<close> is modelled for files without quote characters, after
  the Python engine of pandas: every line is split into cells, a cell that contains
  the comment character ends its line, empty lines are skipped, the first line that is
  left gives the column labels (\<^verbatim>\<open>header\<close> is not passed, so the reader always takes a
  header line), and the other lines are the data rows. The cells stay text.
\<close>

text \<open>
  The exceptions of the reader; the last value is no exception of pandas: it marks a run
  with a resampling rule that the embedding does not follow (see \<open>to_offset\<close> below).
\<close>

datatype error =
    CsvError
  | EmptyDataError
  | ParserError nat nat
  | OtherFrequency string

record raw_frame =
  columns :: "string list"
  rows :: "string list list"

text \<open>The cells that pandas reads as missing: its own list and the three of the call.\<close>

definition na_values :: "string list" where
  "na_values =
     ['''', ''NA'', ''NaN'',
      ''#N/A'', ''#N/A N/A'', ''#NA'', ''-1.#IND'', ''-1.#QNAN'', ''-NaN'', ''-nan'',
      ''1.#IND'', ''1.#QNAN'', ''<NA>'', ''N/A'', ''NULL'', ''None'', ''n/a'', ''nan'',
      ''null'']"

fun split_on :: "char \<Rightarrow> string \<Rightarrow> string list" where
  "split_on d [] = [[]]"
| "split_on d (c # cs) =
     (if c = d then [] # split_on d cs
      else (case split_on d cs of [] \<Rightarrow> [[c]] | w # ws \<Rightarrow> (c # w) # ws))"

text \<open>\<^verbatim>\<open>re.split(r"\s+", s)\<close>.\<close>

function split_ws :: "string \<Rightarrow> string list" where
  "split_ws [] = [[]]"
| "split_ws (c # cs) =
     (if is_space c then [] # split_ws (dropWhile is_space cs)
      else (case split_ws cs of [] \<Rightarrow> [[c]] | w # ws \<Rightarrow> (c # w) # ws))"
  by pat_completeness auto
termination
  by (relation "measure length") (auto simp: length_dropWhile_le less_Suc_eq_le)

text \<open>The cells of a line up to the first comment character.\<close>

fun check_comments :: "string list \<Rightarrow> string list" where
  "check_comments [] = []"
| "check_comments (x # xs) =
     (if CHR ''#'' \<notin> set x \<or> x \<in> set na_values then x # check_comments xs
      else (let y = takeWhile (\<lambda>c. c \<noteq> CHR ''#'') x in if y \<noteq> [] then [y] else []))"

definition is_empty_line :: "string list \<Rightarrow> bool" where
  "is_empty_line l \<longleftrightarrow> \<not> (length l > 1 \<or> (length l = 1 \<and> strip (hd l) \<noteq> []))"

definition tokenize :: "(string \<Rightarrow> string list) \<Rightarrow> string list \<Rightarrow> string list list" where
  "tokenize split ls = filter (\<lambda>l. \<not> is_empty_line l) (map (\<lambda>l. check_comments (split l)) ls)"

definition pad :: "nat \<Rightarrow> string list \<Rightarrow> string list" where
  "pad n r = take n (r @ replicate n [])"

text \<open>
  The header and the rows. When the first data row has more cells than the header, its
  leading \<open>k\<close> cells are the index of the frame and not columns; when the second data row
  has as many cells as the first data row and the header together, the first data row
  holds the names of the index and is no data (\<open>implicit_index\<close> gives \<open>k\<close> and the
  rows that are data). A row with more cells than the header and
  the index is an error (\<open>ParserError\<close> with the expected and the found number of
  cells), a shorter row is filled with missing cells.
\<close>

definition implicit_index :: "nat \<Rightarrow> string list list \<Rightarrow> nat \<times> string list list" where
  "implicit_index n body =
     (case body of
        [] \<Rightarrow> (0, body)
      | [r1] \<Rightarrow> (length r1 - n, body)
      | r1 # r2 # rest \<Rightarrow>
          if length r2 = length r1 + n then (length r1, r2 # rest)
          else (length r1 - n, body))"

definition frame_of_lines :: "string list list \<Rightarrow> error + raw_frame" where
  "frame_of_lines ls =
     (case ls of
        [] \<Rightarrow> Inl EmptyDataError
      | hdr # body \<Rightarrow>
          (let n = length hdr;
               (k, body) = implicit_index n body
           in case find (\<lambda>r. length r > n + k) body of
                Some r \<Rightarrow> Inl (ParserError (n + k) (length r))
              | None \<Rightarrow> Inr \<lparr>columns = hdr, rows = map (\<lambda>r. pad n (drop k r)) body\<rparr>))"

text \<open>
  \<^verbatim>\<open>sep=None\<close>: the delimiter is guessed by \<^verbatim>\<open>csv.Sniffer\<close> from the first line that
  is not a comment: the first of the preferred delimiters that occurs in it, otherwise
  its most frequent character (the greatest one among equally frequent ones).
\<close>

definition preferred :: "char list" where
  "preferred = [CHR '','', CHR 0x09, CHR '';'', CHR '' '', CHR '':'']"

definition dominates :: "string \<Rightarrow> char \<Rightarrow> char \<Rightarrow> bool" where
  "dominates line a b \<longleftrightarrow>
     count_list line a > count_list line b \<or>
     (count_list line a = count_list line b \<and> (of_char a :: nat) > of_char b)"

definition sniff :: "string \<Rightarrow> char option" where
  "sniff line =
     (let cands = filter (\<lambda>c. (of_char c :: nat) < 127) (remdups line)
      in case filter (\<lambda>d. d \<in> set cands) preferred of
           d # _ \<Rightarrow> Some d
         | [] \<Rightarrow>
             (case cands of
                [] \<Rightarrow> None
              | c # cs \<Rightarrow> Some (foldl (\<lambda>b a. if dominates line a b then a else b) c cs)))"

definition first_valid_line :: "string list \<Rightarrow> string" where
  "first_valid_line ls =
     (case dropWhile (\<lambda>l. check_comments [l] = []) ls of
        [] \<Rightarrow> []
      | l # _ \<Rightarrow> hd (check_comments [l]))"

definition read_csv_sniff :: "string list \<Rightarrow> error + raw_frame" where
  "read_csv_sniff ls =
     (case sniff (first_valid_line ls) of
        None \<Rightarrow> Inl CsvError
      | Some d \<Rightarrow> frame_of_lines (tokenize (split_on d) ls))"

text \<open>\<^verbatim>\<open>sep=r"\s+"\<close>: every line is stripped and split at runs of white space.\<close>

definition read_csv_whitespace :: "string list \<Rightarrow> error + raw_frame" where
  "read_csv_whitespace ls = frame_of_lines (tokenize (\<lambda>l. split_ws (strip l)) ls)"

subsection \<open>Numbers and timestamps\<close>

definition is_digit :: "char \<Rightarrow> bool" where
  "is_digit c \<longleftrightarrow> c \<in> set ''0123456789''"

definition digit_val :: "char \<Rightarrow> int" where
  "digit_val c =
     (case map_of (zip ''0123456789'' [0, 1, 2, 3, 4, 5, 6, 7, 8, 9]) c of
        Some n \<Rightarrow> n
      | None \<Rightarrow> 0)"

definition int_of_digits :: "string \<Rightarrow> int" where
  "int_of_digits s = foldl (\<lambda>n c. 10 * n + digit_val c) 0 s"

definition digit_char :: "int \<Rightarrow> char" where
  "digit_char n = ''0123456789'' ! nat (n mod 10)"

text \<open>\<^verbatim>\<open>str(n)\<close> of a natural number, and a number in a field of fixed width.\<close>

function show_int :: "int \<Rightarrow> string" where
  "show_int n = (if n < 10 then [digit_char n] else show_int (n div 10) @ [digit_char n])"
  by pat_completeness auto
termination
  by (relation "measure nat") auto

declare show_int.simps [simp del]

definition show_nat :: "nat \<Rightarrow> string" where
  "show_nat n = show_int (int n)"

definition zero_padded :: "nat \<Rightarrow> int \<Rightarrow> string" where
  "zero_padded w n = map (\<lambda>i. digit_char (n div 10 ^ i)) (rev [0..<w])"

text \<open>
  Python floats. \<open>OVERFLOW\<close> is the least magnitude that a double cannot hold:
  \<open>2 ^ 1024 - 2 ^ 970\<close>, from which on the nearest double is an infinity.
\<close>

datatype pyfloat = Finite rat | PosInf | NegInf | NaN

definition OVERFLOW :: rat where
  "OVERFLOW = 179769313486231580793728971405303415079934132710037826936173778980444968292764750946649017977587207096330286416692887910946555547851940402630657488671505820681908902000708383676273854845817711531764475730270069855571366959622842914819860834936475292719074168444365510704342711559699508093042880177904174497792"

definition normal :: "rat \<Rightarrow> pyfloat" where
  "normal q = (if q \<ge> OVERFLOW then PosInf else if q \<le> - OVERFLOW then NegInf else Finite q)"

fun fadd :: "pyfloat \<Rightarrow> pyfloat \<Rightarrow> pyfloat" where
  "fadd NaN y = NaN"
| "fadd x NaN = NaN"
| "fadd (Finite a) (Finite b) = normal (a + b)"
| "fadd PosInf NegInf = NaN"
| "fadd NegInf PosInf = NaN"
| "fadd PosInf y = PosInf"
| "fadd x PosInf = PosInf"
| "fadd NegInf y = NegInf"
| "fadd x NegInf = NegInf"

definition signed_inf :: "rat \<Rightarrow> pyfloat" where
  "signed_inf q = (if q = 0 then NaN else if q > 0 then PosInf else NegInf)"

fun fmul :: "pyfloat \<Rightarrow> pyfloat \<Rightarrow> pyfloat" where
  "fmul NaN y = NaN"
| "fmul x NaN = NaN"
| "fmul (Finite a) (Finite b) = normal (a * b)"
| "fmul (Finite a) PosInf = signed_inf a"
| "fmul (Finite a) NegInf = signed_inf (- a)"
| "fmul PosInf (Finite b) = signed_inf b"
| "fmul NegInf (Finite b) = signed_inf (- b)"
| "fmul PosInf PosInf = PosInf"
| "fmul NegInf NegInf = PosInf"
| "fmul PosInf NegInf = NegInf"
| "fmul NegInf PosInf = NegInf"

text \<open>The quotient of a float and a positive count.\<close>

fun fdiv_count :: "pyfloat \<Rightarrow> nat \<Rightarrow> pyfloat" where
  "fdiv_count (Finite a) n = Finite (a / of_nat n)"
| "fdiv_count x n = x"

definition pow10 :: "int \<Rightarrow> rat" where
  "pow10 e = (if e \<ge> 0 then 10 ^ nat e else 1 / 10 ^ nat (- e))"

text \<open>A sign in front of a text.\<close>

definition split_sign :: "string \<Rightarrow> bool \<times> string" where
  "split_sign s =
     (case s of
        [] \<Rightarrow> (False, s)
      | c # r \<Rightarrow>
          if c = CHR ''-'' then (True, r) else if c = CHR ''+'' then (False, r) else (False, s))"

definition int_of_literal :: "string \<Rightarrow> int option" where
  "int_of_literal s =
     (let (neg, u) = split_sign s
      in if u \<noteq> [] \<and> list_all is_digit u
         then Some ((if neg then - 1 else 1) * int_of_digits u) else None)"

text \<open>
  The number that pandas reads from a cell, NaN when there is none: blanks around it are
  ignored; it is \<^verbatim>\<open>inf\<close> or \<^verbatim>\<open>infinity\<close> in any case, or digits with an optional fraction
  and an optional exponent, and it may have a sign.
\<close>

definition parse_float :: "string \<Rightarrow> pyfloat" where
  "parse_float cell =
     (let (neg, u) = split_sign (lower (strip cell));
          ip = takeWhile is_digit u;
          r1 = dropWhile is_digit u;
          fp = (case r1 of [] \<Rightarrow> [] | c # f \<Rightarrow> if c = CHR ''.'' then takeWhile is_digit f else []);
          r2 = (case r1 of [] \<Rightarrow> [] | c # f \<Rightarrow> if c = CHR ''.'' then dropWhile is_digit f else r1);
          ex = (case r2 of
                  [] \<Rightarrow> Some 0
                | c # e \<Rightarrow> if c = CHR ''e'' then int_of_literal e else None)
      in if u = ''inf'' \<or> u = ''infinity'' then (if neg then NegInf else PosInf)
         else if ip = [] \<and> fp = [] then NaN
         else (case ex of
                 None \<Rightarrow> NaN
               | Some e \<Rightarrow>
                   normal ((if neg then - 1 else 1) * of_int (int_of_digits (ip @ fp))
                           * pow10 (e - int (length fp)))))"

text \<open>
  \<^verbatim>\<open>pd.to_numeric(column, errors="coerce")\<close> for a column of cells, a missing cell being
  \<open>None\<close>.
\<close>

definition to_numeric :: "string option list \<Rightarrow> pyfloat list" where
  "to_numeric col = map (\<lambda>c. case c of None \<Rightarrow> NaN | Some s \<Rightarrow> parse_float s) col"

text \<open>The proleptic Gregorian calendar: days since 1970-01-01 of a date, and back.\<close>

definition days_from_civil :: "int \<Rightarrow> int \<Rightarrow> int \<Rightarrow> int" where
  "days_from_civil y m d =
     (let y' = (if m \<le> 2 then y - 1 else y);
          era = y' div 400;
          yoe = y' - era * 400;
          doy = (153 * (if m > 2 then m - 3 else m + 9) + 2) div 5 + d - 1;
          doe = yoe * 365 + yoe div 4 - yoe div 100 + doy
      in era * 146097 + doe - 719468)"

definition civil_from_days :: "int \<Rightarrow> int \<times> int \<times> int" where
  "civil_from_days z =
     (let z' = z + 719468;
          era = z' div 146097;
          doe = z' - era * 146097;
          yoe = (doe - doe div 1460 + doe div 36524 - doe div 146096) div 365;
          doy = doe - (365 * yoe + yoe div 4 - yoe div 100);
          mp = (5 * doy + 2) div 153;
          d = doy - (153 * mp + 2) div 5 + 1;
          m = (if mp < 10 then mp + 3 else mp - 9);
          y = yoe + era * 400
      in (if m \<le> 2 then y + 1 else y, m, d))"

definition days_in_month :: "int \<Rightarrow> int \<Rightarrow> int" where
  "days_in_month y m =
     (if m = 2 then (if y mod 4 = 0 \<and> (y mod 100 \<noteq> 0 \<or> y mod 400 = 0) then 29 else 28)
      else if m \<in> {4, 6, 9, 11} then 30 else 31)"

definition NS_PER_SECOND :: int where
  "NS_PER_SECOND = 1000000000"

definition NS_PER_DAY :: int where
  "NS_PER_DAY = 86400 * NS_PER_SECOND"

text \<open>
  The time of day \<^verbatim>\<open>hh:mm\<close>, \<^verbatim>\<open>hh:mm:ss\<close> or \<^verbatim>\<open>hh:mm:ss.f\<close> with up to nine digits of
  fraction at the front of a text: its nanoseconds and the rest of the text.
\<close>

definition two_digits :: "string \<Rightarrow> int option" where
  "two_digits s =
     (if length s = 2 \<and> list_all is_digit s then Some (int_of_digits s) else None)"

definition parse_time :: "string \<Rightarrow> (int \<times> string) option" where
  "parse_time s =
     (let r1 = drop 5 s;
          has_sec = (take 1 r1 = '':'');
          r2 = (if has_sec then drop 3 r1 else r1);
          has_frac = (has_sec \<and> take 1 r2 = ''.'');
          f = (if has_frac then takeWhile is_digit (drop 1 r2) else []);
          r3 = (if has_frac then dropWhile is_digit (drop 1 r2) else r2)
      in case two_digits (take 2 s) of
           None \<Rightarrow> None
         | Some h \<Rightarrow>
             (case two_digits (take 2 (drop 3 s)) of
                None \<Rightarrow> None
              | Some mi \<Rightarrow>
                  (case (if has_sec then two_digits (take 2 (drop 1 r1)) else Some 0) of
                     None \<Rightarrow> None
                   | Some sec \<Rightarrow>
                       if take 1 (drop 2 s) = '':'' \<and> h < 24 \<and> mi < 60 \<and> sec < 60
                          \<and> (if has_frac then 1 \<le> length f \<and> length f \<le> 9 else True)
                       then Some (((h * 60 + mi) * 60 + sec) * NS_PER_SECOND
                                  + int_of_digits f * 10 ^ (9 - length f), r3)
                       else None)))"

text \<open>
  The offset from UTC at the end of a timestamp, in minutes: none, \<^verbatim>\<open>Z\<close>, or a sign with
  \<^verbatim>\<open>hh\<close>, \<^verbatim>\<open>hhmm\<close> or \<^verbatim>\<open>hh:mm\<close>.
\<close>

definition parse_offset :: "string \<Rightarrow> int option" where
  "parse_offset s =
     (if s = [] \<or> s = ''Z'' then Some 0
      else (let (neg, u) = split_sign s;
                mm = (if length u = 2 then Some 0
                      else if length u = 4 then two_digits (drop 2 u)
                      else if length u = 5 \<and> take 1 (drop 2 u) = '':'' then two_digits (drop 3 u)
                      else None)
            in if u = s then None
               else (case two_digits (take 2 u) of
                       None \<Rightarrow> None
                     | Some hh \<Rightarrow>
                         (case mm of
                            None \<Rightarrow> None
                          | Some m \<Rightarrow>
                              if hh < 24 \<and> m < 60
                              then Some ((if neg then - 1 else 1) * (hh * 60 + m))
                              else None))))"

definition in_range :: "int \<Rightarrow> int option" where
  "in_range ns = (if - (2 ^ 63) < ns \<and> ns < 2 ^ 63 then Some ns else None)"

text \<open>
  The instant that pandas reads from a text in ISO 8601 form: a date \<^verbatim>\<open>YYYY-MM-DD\<close>,
  alone or followed by \<^verbatim>\<open>T\<close> or a blank, a time of day and an offset; blanks around the
  text are ignored. A text without an offset is taken as UTC, as \<^verbatim>\<open>utc=True\<close> says, and an
  offset is subtracted. An impossible date and an instant outside the range of a 64-bit
  count of nanoseconds are missing (\<^verbatim>\<open>NaT\<close>). So is, in the embedding, every text in
  another form, also the forms that pandas can read (such as \<^verbatim>\<open>01/02/2024\<close>): files
  with such timestamps are outside the embedding.
\<close>

definition parse_iso :: "string \<Rightarrow> int option" where
  "parse_iso cell =
     (let s = strip cell;
          field = (\<lambda>i n. take n (drop i s));
          y = int_of_digits (field 0 4);
          mo = int_of_digits (field 5 2);
          d = int_of_digits (field 8 2);
          r = drop 10 s;
          tail = (if r = [] then Some (0, [])
                  else if take 1 r = ''T'' \<or> take 1 r = '' '' then parse_time (drop 1 r)
                  else None)
      in if length (field 0 10) = 10 \<and> field 4 1 = ''-'' \<and> field 7 1 = ''-''
            \<and> list_all is_digit (field 0 4 @ field 5 2 @ field 8 2)
            \<and> 1 \<le> mo \<and> mo \<le> 12 \<and> 1 \<le> d \<and> d \<le> days_in_month y mo
         then (case tail of
                 None \<Rightarrow> None
               | Some (tod, r') \<Rightarrow>
                   (case parse_offset r' of
                      None \<Rightarrow> None
                    | Some off \<Rightarrow>
                        in_range (days_from_civil y mo d * NS_PER_DAY + tod
                                  - off * 60 * NS_PER_SECOND)))
         else None)"

text \<open>
  \<^verbatim>\<open>pd.to_datetime(column, errors="coerce", utc=True)\<close> for a column of cells. A column
  whose cells are all numbers was read as a column of numbers, and pandas takes a number
  as the nanoseconds since the epoch, cutting off its fraction; an infinite number and a
  number outside the range of a 64-bit count are missing. The cells of any other column
  are read as texts, each on its own (a pandas that takes the form of the first text for
  the whole column reads fewer cells of a column of mixed forms; the columns of the
  examples below have one form).
\<close>

definition toward_zero :: "rat \<Rightarrow> int" where
  "toward_zero q = (if q \<ge> 0 then \<lfloor>q\<rfloor> else \<lceil>q\<rceil>)"

definition to_datetime :: "string option list \<Rightarrow> int option list" where
  "to_datetime col =
     (let present = List.map_filter (\<lambda>c. c) col
      in if present \<noteq> [] \<and> list_all (\<lambda>s. parse_float s \<noteq> NaN) present
         then map (\<lambda>c. case c of
                           None \<Rightarrow> None
                         | Some s \<Rightarrow> (case parse_float s of
                                        Finite q \<Rightarrow> in_range (toward_zero q)
                                      | _ \<Rightarrow> None)) col
         else map (\<lambda>c. case c of None \<Rightarrow> None | Some s \<Rightarrow> parse_iso s) col)"

text \<open>\<^verbatim>\<open>strftime("%Y-%m-%dT%H:%M:%SZ")\<close>: the fraction of the second is cut off.\<close>

definition strftime :: "int \<Rightarrow> string" where
  "strftime t =
     (let secs = t div NS_PER_SECOND;
          (y, m, d) = civil_from_days (secs div 86400);
          sod = secs mod 86400
      in zero_padded 4 y @ ''-'' @ zero_padded 2 m @ ''-'' @ zero_padded 2 d
         @ ''T'' @ zero_padded 2 (sod div 3600) @ '':'' @ zero_padded 2 (sod div 60 mod 60)
         @ '':'' @ zero_padded 2 (sod mod 60) @ ''Z'')"

text \<open>
  \<^verbatim>\<open>Series.round(4)\<close>: the nearest multiple of \<open>1/10000\<close>, a tie going to the even one.
\<close>

definition rint :: "rat \<Rightarrow> int" where
  "rint q =
     (let f = \<lfloor>q\<rfloor>; d = q - of_int f
      in if d < 1 / 2 then f else if d > 1 / 2 then f + 1 else if even f then f else f + 1)"

fun round4 :: "pyfloat \<Rightarrow> pyfloat" where
  "round4 (Finite v) = Finite (of_int (rint (v * 10000)) / 10000)"
| "round4 x = x"

subsection \<open>Parsing one file: \<^verbatim>\<open>load_dat\<close>\<close>

text \<open>
  A frame with the columns \<^verbatim>\<open>time\<close> and \<^verbatim>\<open>pressure_kPa\<close> and no missing timestamp is
  the list of its rows.
\<close>

type_synonym frame = "(int \<times> pyfloat) list"

text \<open>\<^verbatim>\<open>df.empty\<close>: no row or no column.\<close>

definition df_empty :: "raw_frame \<Rightarrow> bool" where
  "df_empty df \<longleftrightarrow> rows df = [] \<or> columns df = []"

text \<open>A cell of a row as the reader delivers it: missing when its text is in \<open>na_values\<close>.\<close>

definition cell :: "string list \<Rightarrow> nat \<Rightarrow> string option" where
  "cell r i = (if i < length r \<and> r ! i \<notin> set na_values then Some (r ! i) else None)"

text \<open>
  \<^verbatim>\<open>DataFrame({"time": t, "value": y}).dropna()\<close>, and \<^verbatim>\<open>dropna()\<close> of a frame whose
  timestamps are all there.
\<close>

definition dropna :: "(int option \<times> pyfloat) list \<Rightarrow> frame" where
  "dropna rs =
     List.map_filter
       (\<lambda>(t, y). case t of None \<Rightarrow> None | Some a \<Rightarrow> if y = NaN then None else Some (a, y)) rs"

definition dropna_values :: "frame \<Rightarrow> frame" where
  "dropna_values df = filter (\<lambda>r. snd r \<noteq> NaN) df"

text \<open>
  Lines 48 to 52: the file is read with a guessed delimiter; when that raises, it is read
  again with white space as the delimiter, and an exception of the second reading is not
  caught here.
\<close>

definition read_with_fallback :: "string list \<Rightarrow> error + raw_frame" where
  "read_with_fallback file =
     (case read_csv_sniff file of
        Inl _ \<Rightarrow> read_csv_whitespace file
      | Inr df \<Rightarrow> Inr df)"

text \<open>
  Lines 58 to 69 for the columns at the positions \<open>tcol\<close> and \<open>vcol\<close>: the timestamps and
  the values are parsed, the rows with a missing entry are dropped, the values are
  converted and the rows are sorted by time.
\<close>

definition select_rows :: "config \<Rightarrow> nat \<Rightarrow> nat \<Rightarrow> string list list \<Rightarrow> frame" where
  "select_rows cfg tcol vcol rs =
     (let t = to_datetime (map (\<lambda>r. cell r tcol) rs);
          y = to_numeric (map (\<lambda>r. cell r vcol) rs);
          out = dropna (zip t y);
          out = map (\<lambda>(t, v).
                       (t, if lower (ASSUME_UNITS cfg) = ''psi'' then fmul v (Finite PSI_TO_KPA)
                           else v)) out
      in sort_key fst out)"

definition load_dat :: "config \<Rightarrow> string list \<Rightarrow> error + frame" where
  "load_dat cfg file =
     (case read_with_fallback file of
        Inl e \<Rightarrow> Inl e
      | Inr df \<Rightarrow>
          if df_empty df then Inr []
          else (let (tcol, vcol) = find_cols (columns df)
                in Inr (select_rows cfg tcol vcol (rows df))))"

subsection \<open>Stations: \<^verbatim>\<open>station_name_from_path\<close>\<close>

text \<open>
  A path is given by its parts relative to \<^verbatim>\<open>data/raw\<close>, the file name last.
  \<^verbatim>\<open>PurePath.stem\<close> is the name without its last suffix.
\<close>

definition stem :: "string \<Rightarrow> string" where
  "stem name =
     (let after = takeWhile (\<lambda>c. c \<noteq> CHR ''.'') (rev name);
          i = length name - length after - 1
      in if CHR ''.'' \<in> set name \<and> 0 < i \<and> i < length name - 1 then take i name else name)"

definition station_name_from_path :: "string list \<Rightarrow> string" where
  "station_name_from_path rel =
     (let parts = butlast rel
      in if parts \<noteq> [] then join ''/'' parts else (case rel of [] \<Rightarrow> [] | _ \<Rightarrow> stem (last rel)))"

definition path_str :: "string list \<Rightarrow> string" where
  "path_str rel = join ''/'' (RAW_DIR # rel)"

subsection \<open>Aggregation: duplicate timestamps and \<^verbatim>\<open>resample_df\<close>\<close>

text \<open>
  The mean of pandas: the sum of the values that are not NaN, taken from left to right,
  over their number, and NaN when there is no such value.
\<close>

definition mean :: "pyfloat list \<Rightarrow> pyfloat" where
  "mean vs =
     (let xs = filter (\<lambda>v. v \<noteq> NaN) vs
      in if xs = [] then NaN else fdiv_count (foldl fadd (Finite 0) xs) (length xs))"

text \<open>
  \<^verbatim>\<open>df.groupby("time", as_index=False)["pressure_kPa"].mean()\<close>: one row for every
  timestamp that occurs, in ascending order, with the mean of the values of its rows.
\<close>

definition groupby_mean :: "frame \<Rightarrow> frame" where
  "groupby_mean df =
     map (\<lambda>t. (t, mean (map snd (filter (\<lambda>r. fst r = t) df)))) (sort (remdups (map fst df)))"

text \<open>
  \<^verbatim>\<open>pandas.tseries.frequencies.to_offset\<close>, modelled for the rules of a fixed width: one
  or more parts, each an optional count and one of the units \<^verbatim>\<open>D\<close>, \<^verbatim>\<open>h\<close>, \<^verbatim>\<open>min\<close>,
  \<^verbatim>\<open>s\<close>, \<^verbatim>\<open>ms\<close>, \<^verbatim>\<open>us\<close>, \<^verbatim>\<open>ns\<close>, as in \<^verbatim>\<open>15min\<close> or \<^verbatim>\<open>1h30min\<close>. The result is the
  width in nanoseconds, which must be positive. Every other rule gives \<open>None\<close>. Those
  are the ill-formed rules, for which pandas raises \<^verbatim>\<open>ValueError\<close>; the calendar rules
  (weeks, months, quarters, years, business days), for which pandas resamples into
  buckets of the calendar; and other spellings of a fixed width that pandas, depending
  on its version, accepts (a count with a sign or a fraction, a blank before the unit,
  the older names of the units such as \<^verbatim>\<open>T\<close> and \<^verbatim>\<open>H\<close>). The embedding follows none of
  these: \<open>resample_df\<close> ends with \<open>OtherFrequency\<close> for such a rule, and nothing
  below is said about them.
\<close>

definition is_alpha :: "char \<Rightarrow> bool" where
  "is_alpha c \<longleftrightarrow> c \<in> set ''abcdefghijklmnopqrstuvwxyzABCDEFGHIJKLMNOPQRSTUVWXYZ''"

definition tick_units :: "(string \<times> int) list" where
  "tick_units =
     [(''D'', 86400 * NS_PER_SECOND), (''h'', 3600 * NS_PER_SECOND),
      (''min'', 60 * NS_PER_SECOND), (''s'', NS_PER_SECOND), (''ms'', 1000000),
      (''us'', 1000), (''ns'', 1)]"

function tick_width :: "string \<Rightarrow> int option" where
  "tick_width s =
     (if s = [] then Some 0
      else if takeWhile is_alpha (dropWhile is_digit s) = [] then None
      else (case map_of tick_units (takeWhile is_alpha (dropWhile is_digit s)) of
              None \<Rightarrow> None
            | Some u \<Rightarrow>
                (case tick_width (dropWhile is_alpha (dropWhile is_digit s)) of
                   None \<Rightarrow> None
                 | Some w \<Rightarrow>
                     Some ((if takeWhile is_digit s = [] then 1
                            else int_of_digits (takeWhile is_digit s)) * u + w))))"
  by pat_completeness auto
termination
proof (relation "measure length")
  show "wf (measure length)" by simp
next
  fix s :: string and u :: int
  assume a: "takeWhile is_alpha (dropWhile is_digit s) \<noteq> []"
  have "length (takeWhile is_alpha xs) + length (dropWhile is_alpha xs) = length xs"
    for xs :: string
    by (induction xs) auto
  from this [of "dropWhile is_digit s"] have "length (dropWhile is_alpha (dropWhile is_digit s)) < length (dropWhile is_digit s)"
    using a by (cases "takeWhile is_alpha (dropWhile is_digit s)") auto
  also have "\<dots> \<le> length s" by (rule length_dropWhile_le)
  finally show "(dropWhile is_alpha (dropWhile is_digit s), s) \<in> measure length" by simp
qed

declare tick_width.simps [simp del]

definition to_offset :: "string \<Rightarrow> int option" where
  "to_offset rule =
     (case tick_width rule of
        None \<Rightarrow> None
      | Some w \<Rightarrow> if w > 0 then Some w else None)"

text \<open>
  The start of the bucket of an instant \<open>t\<close>, for buckets of width \<open>w\<close> counted from
  \<open>origin\<close>.
\<close>

definition bucket_start :: "int \<Rightarrow> int \<Rightarrow> int \<Rightarrow> int" where
  "bucket_start origin w t = origin + (t - origin) div w * w"

text \<open>
  \<^verbatim>\<open>df.set_index("time")["pressure_kPa"].resample(rule).mean().dropna()\<close> for a rule of
  width \<open>w\<close>. pandas resamples with \<^verbatim>\<open>origin="start_day"\<close>, \<^verbatim>\<open>closed="left"\<close> and
  \<^verbatim>\<open>label="left"\<close> unless told otherwise: the buckets are counted from midnight of the
  day of the first timestamp, an instant belongs to the bucket that starts at or before
  it, and a bucket is labelled with its start. The mean of a bucket without a row is
  NaN, and so is the mean of a bucket whose values add up to NaN; \<^verbatim>\<open>dropna\<close> removes
  both.
\<close>

definition resample_mean :: "int \<Rightarrow> frame \<Rightarrow> frame" where
  "resample_mean w df =
     (case df of
        [] \<Rightarrow> []
      | r # rs \<Rightarrow>
          (let first = fold min (map fst rs) (fst r);
               origin = first div NS_PER_DAY * NS_PER_DAY
           in dropna_values
                (groupby_mean (map (\<lambda>(t, v). (bucket_start origin w t, v)) df))))"

definition resample_df :: "frame \<Rightarrow> string \<Rightarrow> error + frame" where
  "resample_df df rule =
     (if rule = [] \<or> lower rule = ''none'' then Inr df
      else (case to_offset rule of
              None \<Rightarrow> Inl (OtherFrequency rule)
            | Some w \<Rightarrow> Inr (resample_mean w df)))"

subsection \<open>The run: \<^verbatim>\<open>main\<close>\<close>

text \<open>The JSON document: the objects of \<^verbatim>\<open>series\<close>, \<^verbatim>\<open>meta\<close> and the payload.\<close>

record station_series =
  station :: string
  series_x :: "string list"
  series_y :: "pyfloat list"
  series_unit :: string

record run_metadata =
  updated_at :: string
  count_series :: nat
  meta_note :: string

record output_document =
  meta :: run_metadata
  series :: "station_series list"

text \<open>\<^verbatim>\<open>str(e)\<close>; the line number that pandas adds for a row with too many cells is left out.\<close>

definition message :: "error \<Rightarrow> string" where
  "message e =
     (case e of
        CsvError \<Rightarrow> ''Could not determine delimiter''
      | EmptyDataError \<Rightarrow> ''No columns to parse from file''
      | ParserError n m \<Rightarrow> ''Expected '' @ show_nat n @ '' fields, saw '' @ show_nat m
      | OtherFrequency r \<Rightarrow> ''Invalid frequency: '' @ r)"

text \<open>
  The dictionary \<^verbatim>\<open>records\<close> keeps its keys in the order of their first insertion:
  an association list. \<^verbatim>\<open>records.setdefault(st, []).append(df)\<close>:
\<close>

type_synonym records = "(string \<times> frame list) list"

fun setdefault_append :: "string \<Rightarrow> frame \<Rightarrow> records \<Rightarrow> records" where
  "setdefault_append st df [] = [(st, [df])]"
| "setdefault_append st df ((k, dfs) # rs) =
     (if k = st then (k, dfs @ [df]) # rs else (k, dfs) # setdefault_append st df rs)"

text \<open>
  The body of the first loop (lines 91 to 98) for one file, given by its path and its
  lines: the state is the dictionary and the lines printed so far.
\<close>

definition collect_file ::
  "config \<Rightarrow> records \<times> string list \<Rightarrow> string list \<times> string list \<Rightarrow> records \<times> string list"
where
  "collect_file cfg st f =
     (case load_dat cfg (snd f) of
        Inl e \<Rightarrow>
          (fst st, snd st @ [''[WARN] Failed to parse '' @ path_str (fst f) @ '': '' @ message e])
      | Inr df \<Rightarrow>
          if df = [] then st
          else (setdefault_append (station_name_from_path (fst f)) df (fst st), snd st))"

text \<open>
  Lines 102 to 106: the merged, deduplicated and resampled frame of one station. The
  sorting keeps rows with the same instant in their order; pandas does not fix that
  order, which matters only to a sum that leaves the range of a float on its way.
\<close>

definition merge_station :: "config \<Rightarrow> frame list \<Rightarrow> error + frame" where
  "merge_station cfg dfs =
     (let merged = sort_key fst (dropna_values (concat dfs));
          merged = groupby_mean merged
      in resample_df merged (RESAMPLE_RULE cfg))"

text \<open>The body of the second loop; \<^verbatim>\<open>resample_df\<close> not returning a frame ends the run.\<close>

fun build_series :: "config \<Rightarrow> records \<Rightarrow> error + station_series list" where
  "build_series cfg [] = Inr []"
| "build_series cfg ((st, dfs) # rs) =
     (case merge_station cfg dfs of
        Inl e \<Rightarrow> Inl e
      | Inr merged \<Rightarrow>
          (case build_series cfg rs of
             Inl e \<Rightarrow> Inl e
           | Inr ss \<Rightarrow>
               Inr (\<lparr>station = st,
                     series_x = map (\<lambda>r. strftime (fst r)) merged,
                     series_y = map (\<lambda>r. round4 (snd r)) merged,
                     series_unit = ''kPa''\<rparr> # ss)))"

text \<open>
  \<^verbatim>\<open>main\<close>, for the files in the order in which \<^verbatim>\<open>rglob\<close> finds them and the time \<open>now\<close>
  of the clock: the printed lines, and the document written or the exception that ended
  the run.
\<close>

definition main ::
  "config \<Rightarrow> int \<Rightarrow> (string list \<times> string list) list \<Rightarrow> string list \<times> (error + output_document)"
where
  "main cfg now files =
     (let (records, printed) = foldl (collect_file cfg) ([], []) files
      in case build_series cfg records of
           Inl e \<Rightarrow> (printed, Inl e)
         | Inr ss \<Rightarrow>
             (printed @ [''[OK] Wrote '' @ OUT_DIR @ ''/all_series.json with ''
                          @ show_nat (length ss) @ '' series.''],
              Inr \<lparr>meta = \<lparr>updated_at = strftime now,
                           count_series = length ss,
                           meta_note = (if RESAMPLE_RULE cfg \<noteq> [] then ''Resampled for display''
                                        else ''Raw cadence'')\<rparr>,
                   series = ss\<rparr>))"


subsection \<open>Example files\<close>

text \<open>A file with a header of three labels, none of which is a key, and two rows.\<close>

definition unlabelled_file :: "string list" where
  "unlabelled_file =
     [''station;reading;flag'', ''2024-01-01T00:00:00Z;1.5;x'', ''10:00;2.5;y'']"

definition unlabelled_frame :: raw_frame where
  "unlabelled_frame =
     \<lparr>columns = [''station'', ''reading'', ''flag''],
      rows = [[''2024-01-01T00:00:00Z'', ''1.5'', ''x''], [''10:00'', ''2.5'', ''y'']]\<rparr>"

text \<open>Three points of one station at 00:00, 00:05 and 00:10 of 2024-01-01.\<close>

definition three_points :: frame where
  "three_points =
     [(1704067200000000000, Finite 1), (1704067500000000000, Finite 2),
      (1704067800000000000, Finite 6)]"

text \<open>
  Two points at 00:00 and 00:05 of that day with the two infinities, and a point a
  quarter of an hour after the first; the settings with a rule of 7 minutes and kPa as
  the unit of the input, and a file with a single row at 00:05.
\<close>

definition opposite_infinities :: frame where
  "opposite_infinities =
     [(1704067200000000000, PosInf), (1704067500000000000, NegInf),
      (1704068100000000000, Finite 3)]"

definition seven_minute_config :: config where
  "seven_minute_config = \<lparr>ASSUME_UNITS = ''kPa'', LOCAL_TZ = ''UTC'', RESAMPLE_RULE = ''7min''\<rparr>"

definition single_row_file :: "string list" where
  "single_row_file = [''time,pressure'', ''2024-01-01T00:05:00Z,1.0'']"

text \<open>
  The settings with resampling switched off the way the comment of \<^verbatim>\<open>RESAMPLE_RULE\<close>
  describes it, and with kPa as the unit of the input.
\<close>

definition raw_cadence_config :: config where
  "raw_cadence_config = \<lparr>ASSUME_UNITS = ''psi'', LOCAL_TZ = ''UTC'', RESAMPLE_RULE = ''None''\<rparr>"

definition kpa_config :: config where
  "kpa_config = \<lparr>ASSUME_UNITS = ''kPa'', LOCAL_TZ = ''UTC'', RESAMPLE_RULE = ''15min''\<rparr>"

text \<open>A file with two rows at 00:00 of 2024-01-01 and one row at 00:05.\<close>

definition duplicate_file :: "string list" where
  "duplicate_file =
     [''time,pressure'', ''2024-01-01T00:00:00Z,10.0'', ''2024-01-01T00:00:00Z,20.0'',
      ''2024-01-01T00:05:00Z,60.0'']"

text \<open>A file without any line of data: both readings of it raise.\<close>

definition comment_only_file :: "string list" where
  "comment_only_file = [''# no data yet'']"

text \<open>The file of the scenario of the specification.\<close>

definition scenario_file :: "string list" where
  "scenario_file =
     [''# comment'', ''time,pressure'', ''2024-01-01T00:00:00Z,10.0'',
      ''2024-01-01T00:00:00Z,20.0'', ''2024-01-01T00:15:00Z,30.0'']"


definition infinite_file :: "string list" where
  "infinite_file =
     [''time,pressure'', ''2024-01-01T00:00:00Z,inf'', ''2024-01-01T00:00:00Z,-inf'']"

text \<open>
  A file without a header line, whose first line is a comment, and the frame that is read
  from it; and a file whose timestamps carry no offset, read with the time zone of Los
  Angeles configured.
\<close>

definition headerless_file :: "string list" where
  "headerless_file =
     [''# readings'', ''2024-01-01T00:00:00Z,10.0'', ''2024-01-01T00:15:00Z,20.0'']"

definition headerless_frame :: raw_frame where
  "headerless_frame =
     \<lparr>columns = [''2024-01-01T00:00:00Z'', ''10.0''],
      rows = [[''2024-01-01T00:15:00Z'', ''20.0'']]\<rparr>"

definition los_angeles_config :: config where
  "los_angeles_config =
     \<lparr>ASSUME_UNITS = ''kPa'', LOCAL_TZ = ''America/Los_Angeles'', RESAMPLE_RULE = ''15min''\<rparr>"

definition naive_time_file :: "string list" where
  "naive_time_file = [''time,pressure'', ''2024-01-01T00:00:00,10.0'']"





section \<open>Properties\<close>

subsection \<open>Column inference\<close>

lemma index_less: "k \<in> set xs \<Longrightarrow> index xs k < length xs"
  by (induction xs) auto

lemma index_nth: "k \<in> set xs \<Longrightarrow> xs ! index xs k = k"
  by (induction xs) auto

lemma index_first: "j < index xs k \<Longrightarrow> xs ! j \<noteq> k"
proof (induction xs arbitrary: j)
  case Nil
  then show ?case by simp
next
  case (Cons x xs)
  then show ?case by (cases j) (auto split: if_splits)
qed

text \<open>The loop over the keys finds the earliest key of the list that is a label.\<close>

lemma first_key_find:
  "first_key keys lc = map_option (index lc) (find (\<lambda>k. k \<in> set lc) keys)"
  by (induction keys) auto

lemma first_key_None: "first_key keys lc = None \<longleftrightarrow> (\<forall>k \<in> set keys. k \<notin> set lc)"
  by (induction keys) auto

lemma fst_find_cols:
  "fst (find_cols cols) =
     (case first_key time_keys (map (\<lambda>c. strip (lower c)) cols) of None \<Rightarrow> 0 | Some i \<Rightarrow> i)"
  by (simp add: find_cols_def Let_def)

lemma snd_find_cols:
  "snd (find_cols cols) =
     (case first_key val_keys (map (\<lambda>c. strip (lower c)) cols) of
        None \<Rightarrow> (if length cols > 1 then 1 else 0)
      | Some i \<Rightarrow> i)"
  by (simp add: find_cols_def Let_def split: option.splits)

text \<open>
  Claim C6. Let \<open>lc\<close> be the labels of the header, lowercased and stripped. When \<open>k\<close> is
  the earliest key of the priority list of the time keys that is among \<open>lc\<close>, the time
  column selected is a column of the frame whose label is \<open>k\<close>, wherever it stands (the
  first one with that label); the same holds for the value column and the value keys.
\<close>

theorem find_cols_header_match:
  assumes "lc = map (\<lambda>c. strip (lower c)) cols"
  shows "(find (\<lambda>k. k \<in> set lc) time_keys = Some k \<longrightarrow>
            fst (find_cols cols) < length cols \<and> lc ! fst (find_cols cols) = k
            \<and> (\<forall>j < fst (find_cols cols). lc ! j \<noteq> k))
       \<and> (find (\<lambda>k. k \<in> set lc) val_keys = Some k' \<longrightarrow>
            snd (find_cols cols) < length cols \<and> lc ! snd (find_cols cols) = k'
            \<and> (\<forall>j < snd (find_cols cols). lc ! j \<noteq> k'))"
proof (intro conjI impI)
  assume f: "find (\<lambda>k. k \<in> set lc) time_keys = Some k"
  then have k: "k \<in> set lc" by (auto simp: find_Some_iff)
  from f have t: "fst (find_cols cols) = index lc k"
    by (simp add: fst_find_cols first_key_find assms)
  show "fst (find_cols cols) < length cols" using index_less [OF k] t assms by simp
  show "lc ! fst (find_cols cols) = k" using index_nth [OF k] t by simp
  show "\<forall>j < fst (find_cols cols). lc ! j \<noteq> k" using index_first t by metis
next
  assume f: "find (\<lambda>k. k \<in> set lc) val_keys = Some k'"
  then have k: "k' \<in> set lc" by (auto simp: find_Some_iff)
  from f have t: "snd (find_cols cols) = index lc k'"
    by (simp add: snd_find_cols first_key_find assms)
  show "snd (find_cols cols) < length cols" using index_less [OF k] t assms by simp
  show "lc ! snd (find_cols cols) = k'" using index_nth [OF k] t by simp
  show "\<forall>j < snd (find_cols cols). lc ! j \<noteq> k'" using index_first t by metis
qed

text \<open>
  A header with two time keys and two value keys, none of them in front: \<^verbatim>\<open>time\<close> wins
  over \<^verbatim>\<open>date\<close> and \<^verbatim>\<open>pressure\<close> over \<^verbatim>\<open>psi\<close>.
\<close>

theorem find_cols_header_match_witness:
  "[''psi'', ''date'', ''time'', ''pressure'']
     = map (\<lambda>c. strip (lower c)) [''PSI'', ''date'', '' Time'', ''Pressure '']
   \<and> find (\<lambda>k. k \<in> set [''psi'', ''date'', ''time'', ''pressure'']) time_keys = Some ''time''
   \<and> find (\<lambda>k. k \<in> set [''psi'', ''date'', ''time'', ''pressure'']) val_keys
       = Some ''pressure''
   \<and> find_cols [''PSI'', ''date'', '' Time'', ''Pressure ''] = (2, 3)
   \<and> [''psi'', ''date'', ''time'', ''pressure'']
        ! fst (find_cols [''PSI'', ''date'', '' Time'', ''Pressure '']) = ''time''
   \<and> [''psi'', ''date'', ''time'', ''pressure'']
        ! snd (find_cols [''PSI'', ''date'', '' Time'', ''Pressure '']) = ''pressure''"
proof -
  have lc: "[''psi'', ''date'', ''time'', ''pressure'']
              = map (\<lambda>c. strip (lower c)) [''PSI'', ''date'', '' Time'', ''Pressure '']"
    by code_simp
  have t: "find (\<lambda>k. k \<in> set [''psi'', ''date'', ''time'', ''pressure'']) time_keys
             = Some ''time''"
    by code_simp
  have v: "find (\<lambda>k. k \<in> set [''psi'', ''date'', ''time'', ''pressure'']) val_keys
             = Some ''pressure''"
    by code_simp
  have c: "find_cols [''PSI'', ''date'', '' Time'', ''Pressure ''] = (2, 3)"
    by code_simp
  from find_cols_header_match [OF lc, of "''time''" "''pressure''"] t v
  have "[''psi'', ''date'', ''time'', ''pressure'']
          ! fst (find_cols [''PSI'', ''date'', '' Time'', ''Pressure '']) = ''time''
      \<and> [''psi'', ''date'', ''time'', ''pressure'']
          ! snd (find_cols [''PSI'', ''date'', '' Time'', ''Pressure '']) = ''pressure''"
    by blast
  with lc t v c show ?thesis by blast
qed

lemma load_dat_frame:
  "read_with_fallback file = Inr df \<Longrightarrow> \<not> df_empty df \<Longrightarrow>
   load_dat cfg file
     = Inr (select_rows cfg (fst (find_cols (columns df))) (snd (find_cols (columns df)))
              (rows df))"
  by (simp add: load_dat_def split_beta)

text \<open>
  Claim C7. For a file that is read as the frame \<open>df\<close> with the lowercased, stripped
  labels \<open>lc\<close> and \<open>n\<close> columns: when no label is a time key, the time column is the first
  one; when no label is a value key, the value column is the second one, or the first one
  of a frame with one column only (so with more than one column the value column is the
  second one, whichever the time column is); and when no label is a key at all,
  \<^verbatim>\<open>load_dat\<close> parses the timestamps from the first column and the values from that
  default column. A file without a header is such a file whenever the cells of its first
  line are not keys, since the reader takes that line for the labels.
\<close>

theorem find_cols_default:
  assumes "read_with_fallback file = Inr df" and "\<not> df_empty df"
    and "lc = map (\<lambda>c. strip (lower c)) (columns df)"
    and "n = length (columns df)"
  shows "((\<forall>k \<in> set time_keys. k \<notin> set lc) \<longrightarrow> fst (find_cols (columns df)) = 0)
       \<and> ((\<forall>k \<in> set val_keys. k \<notin> set lc) \<longrightarrow>
            snd (find_cols (columns df)) = (if n > 1 then 1 else 0))
       \<and> ((\<forall>k \<in> set time_keys \<union> set val_keys. k \<notin> set lc) \<longrightarrow>
            load_dat cfg file = Inr (select_rows cfg 0 (if n > 1 then 1 else 0) (rows df)))"
proof (intro conjI impI)
  assume "\<forall>k \<in> set time_keys. k \<notin> set lc"
  then have "first_key time_keys lc = None" by (simp add: first_key_None)
  then show "fst (find_cols (columns df)) = 0" by (simp add: fst_find_cols assms(3))
next
  assume "\<forall>k \<in> set val_keys. k \<notin> set lc"
  then have "first_key val_keys lc = None" by (simp add: first_key_None)
  then show "snd (find_cols (columns df)) = (if n > 1 then 1 else 0)"
    by (simp add: snd_find_cols assms(3,4))
next
  assume a: "\<forall>k \<in> set time_keys \<union> set val_keys. k \<notin> set lc"
  then have "first_key time_keys lc = None" and "first_key val_keys lc = None"
    by (simp_all add: first_key_None)
  then have "fst (find_cols (columns df)) = 0"
    and "snd (find_cols (columns df)) = (if n > 1 then 1 else 0)"
    by (simp_all add: fst_find_cols snd_find_cols assms(3,4))
  then show "load_dat cfg file = Inr (select_rows cfg 0 (if n > 1 then 1 else 0) (rows df))"
    using load_dat_frame [OF assms(1,2), of cfg] by simp
qed

theorem find_cols_default_witness:
  "read_with_fallback unlabelled_file = Inr unlabelled_frame
   \<and> \<not> df_empty unlabelled_frame
   \<and> fst (find_cols (columns unlabelled_frame)) = 0
   \<and> snd (find_cols (columns unlabelled_frame)) = 1
   \<and> load_dat default_config unlabelled_file = Inr [(1704067200000000000, Finite (3 / 2 * PSI_TO_KPA))]"
proof -
  have r: "read_with_fallback unlabelled_file = Inr unlabelled_frame"
    unfolding unlabelled_file_def unlabelled_frame_def by code_simp
  have e: "\<not> df_empty unlabelled_frame"
    unfolding unlabelled_frame_def by code_simp
  have l: "[''station'', ''reading'', ''flag'']
             = map (\<lambda>c. strip (lower c)) (columns unlabelled_frame)"
    unfolding unlabelled_frame_def by code_simp
  have n: "3 = length (columns unlabelled_frame)"
    unfolding unlabelled_frame_def by simp
  have k: "\<forall>k \<in> set time_keys \<union> set val_keys. k \<notin> set [''station'', ''reading'', ''flag'']"
    by code_simp
  have s: "select_rows default_config 0 1 (rows unlabelled_frame)
             = [(1704067200000000000, Finite (3 / 2 * PSI_TO_KPA))]"
    unfolding unlabelled_frame_def by code_simp
  from find_cols_default [OF r e l n, of default_config] k
  have "fst (find_cols (columns unlabelled_frame)) = 0"
    and "snd (find_cols (columns unlabelled_frame)) = 1"
    and "load_dat default_config unlabelled_file
           = Inr (select_rows default_config 0 1 (rows unlabelled_frame))"
    by auto
  with r e s show ?thesis by simp
qed

subsection \<open>Grouping and buckets\<close>

lemma fst_groupby_mean: "map fst (groupby_mean df) = sort (remdups (map fst df))"
  by (simp add: groupby_mean_def comp_def)

lemma groupby_mean_strict: "sorted_wrt (<) (map fst (groupby_mean df))"
  by (simp add: fst_groupby_mean strict_sorted_iff)

lemma groupby_mean_mem:
  "(t, v) \<in> set (groupby_mean df) \<longleftrightarrow>
     t \<in> fst ` set df \<and> v = mean (map snd (filter (\<lambda>r. fst r = t) df))"
  by (auto simp: groupby_mean_def)

lemma values_of_bucket:
  "map snd (filter (\<lambda>r. fst r = b) (map (\<lambda>(t, v). (f t, v)) df))
     = map snd (filter (\<lambda>r. f (fst r) = b) df)"
  by (induction df) auto

lemma bucket_start_le:
  assumes "0 < w" shows "bucket_start origin w t \<le> t"
proof -
  have "t - origin = (t - origin) div w * w + (t - origin) mod w" by simp
  moreover have "0 \<le> (t - origin) mod w" using assms by simp
  ultimately have "(t - origin) div w * w \<le> t - origin" by linarith
  then show ?thesis by (simp add: bucket_start_def)
qed

lemma bucket_start_gt:
  assumes "0 < w" shows "t < bucket_start origin w t + w"
proof -
  have "t - origin = (t - origin) div w * w + (t - origin) mod w" by simp
  moreover have "(t - origin) mod w < w" using assms by simp
  ultimately have "t - origin < (t - origin) div w * w + w" by linarith
  then show ?thesis by (simp add: bucket_start_def)
qed

lemma bucket_start_grid: "(bucket_start origin w t - origin) mod w = 0"
  by (simp add: bucket_start_def)

lemma bucket_start_unique:
  assumes "0 < w" and "(b - origin) mod w = 0" and "b \<le> t" and "t < b + w"
  shows "bucket_start origin w t = b"
proof -
  from assms(2) have "w dvd b - origin" by (simp add: dvd_eq_mod_eq_0)
  then obtain k where k: "b - origin = w * k" by (auto simp: dvd_def)
  have w: "w \<noteq> 0" using assms(1) by simp
  have e: "t - origin = w * k + (t - b)" using k by simp
  have "(t - origin) div w = (w * k + (t - b)) div w" by (simp only: e)
  also have "\<dots> = k + (t - b) div w" by (rule div_mult_self4 [OF w])
  also have "(t - b) div w = 0" using assms by (simp add: div_pos_pos_trivial)
  finally have "(t - origin) div w * w = b - origin" using k by (simp add: mult.commute)
  then show ?thesis by (simp add: bucket_start_def)
qed

lemma bucket_start_iff:
  assumes "0 < w" and "(b - origin) mod w = 0"
  shows "bucket_start origin w t = b \<longleftrightarrow> b \<le> t \<and> t < b + w"
proof
  assume "bucket_start origin w t = b"
  then show "b \<le> t \<and> t < b + w"
    using bucket_start_le [OF assms(1), of origin t] bucket_start_gt [OF assms(1), of t origin]
    by simp
next
  assume "b \<le> t \<and> t < b + w"
  then show "bucket_start origin w t = b"
    using bucket_start_unique [OF assms] by simp
qed

lemma bucket_start_epoch:
  assumes "0 < w" and "w dvd origin"
  shows "bucket_start origin w t = t div w * w"
proof -
  from assms(2) obtain c where c: "origin = w * c" by (auto simp: dvd_def)
  have w: "w \<noteq> 0" using assms(1) by simp
  have e: "t - origin = w * (- c) + t" using c by simp
  have "(t - origin) div w = (w * (- c) + t) div w" by (simp only: e)
  also have "\<dots> = - c + t div w" by (rule div_mult_self4 [OF w])
  finally have "bucket_start origin w t = origin + (- c + t div w) * w"
    by (simp only: bucket_start_def)
  also have "\<dots> = t div w * w" by (simp add: c algebra_simps)
  finally show ?thesis .
qed

lemma strict_filter:
  "sorted_wrt (<) (map fst df) \<Longrightarrow> sorted_wrt (<) (map fst (filter P df))"
  by (induction df) auto

lemma resample_mean_strict: "sorted_wrt (<) (map fst (resample_mean w df))"
  by (cases df)
     (simp_all add: resample_mean_def Let_def dropna_values_def strict_filter groupby_mean_strict)

lemma resample_mean_eq:
  assumes "df \<noteq> []" and "origin = Min (fst ` set df) div NS_PER_DAY * NS_PER_DAY"
  shows "resample_mean w df
           = dropna_values (groupby_mean (map (\<lambda>(t, v). (bucket_start origin w t, v)) df))"
proof (cases df)
  case Nil
  with assms show ?thesis by simp
next
  case (Cons r rs)
  have "fold min (map fst rs) (fst r) = Min (set (fst r # map fst rs))"
    by (simp only: Min.set_eq_fold)
  also have "set (fst r # map fst rs) = fst ` set df" using Cons by simp
  finally show ?thesis using Cons assms(2) by (simp add: resample_mean_def Let_def)
qed

lemma resample_mean_mem:
  assumes "df \<noteq> []" and "origin = Min (fst ` set df) div NS_PER_DAY * NS_PER_DAY"
  shows "(b, v) \<in> set (resample_mean w df) \<longleftrightarrow>
           b \<in> bucket_start origin w ` fst ` set df
           \<and> v = mean (map snd (filter (\<lambda>r. bucket_start origin w (fst r) = b) df))
           \<and> v \<noteq> NaN"
  by (force simp: resample_mean_eq [OF assms] dropna_values_def groupby_mean_mem
        values_of_bucket image_iff)

lemma to_offset_pos: "to_offset rule = Some w \<Longrightarrow> 0 < w"
  by (auto simp: to_offset_def split: option.splits if_splits)

lemma values_in_bucket:
  assumes "0 < w" and "(b - origin) mod w = 0"
  shows "filter (\<lambda>r. bucket_start origin w (fst r) = b) df
           = filter (\<lambda>r. b \<le> fst r \<and> fst r < b + w) df"
  using bucket_start_iff [OF assms] by (intro filter_cong) auto

subsection \<open>Resampling\<close>

text \<open>
  Claim C3, amended, for the rules of a fixed width (counts of days, hours, minutes,
  seconds and their fractions, and sums of them). With a rule that is empty or spelled
  \<^verbatim>\<open>none\<close> in any case the frame passes through unchanged. With a rule of width \<open>w\<close>, the
  buckets have the width \<open>w\<close> and are counted from \<open>origin\<close>, midnight (UTC) of the day of
  the earliest timestamp, and every row lies in the bucket that starts at or before it.
  The frame is replaced by points in ascending order of time, no two at the same instant:
  a bucket that holds a row gives the point at its start with the mean of the values of
  its rows, unless that mean is NaN (infinite values of both signs, or finite values
  whose sum goes beyond the range of a float and meets an infinity of the other sign);
  a bucket whose mean is NaN and a bucket without a row give no point. When \<open>w\<close> divides
  the length of a day, as 15 minutes do, every bucket starts at a multiple of \<open>w\<close> since
  the epoch.
\<close>

theorem resample_df_buckets:
  assumes "origin = Min (fst ` set df) div NS_PER_DAY * NS_PER_DAY"
  shows "(rule = [] \<or> lower rule = ''none'' \<longrightarrow> resample_df df rule = Inr df)
       \<and> (rule \<noteq> [] \<and> lower rule \<noteq> ''none'' \<and> to_offset rule = Some w \<and> df \<noteq> [] \<longrightarrow>
            (\<exists>out. resample_df df rule = Inr out
               \<and> sorted_wrt (<) (map fst out)
               \<and> (\<forall>t \<in> fst ` set df.
                     bucket_start origin w t \<le> t \<and> t < bucket_start origin w t + w
                     \<and> (bucket_start origin w t - origin) mod w = 0)
               \<and> (\<forall>b v. (b, v) \<in> set out \<longleftrightarrow>
                     b \<in> bucket_start origin w ` fst ` set df
                     \<and> v = mean (map snd (filter (\<lambda>r. b \<le> fst r \<and> fst r < b + w) df))
                     \<and> v \<noteq> NaN)
               \<and> (w dvd NS_PER_DAY \<longrightarrow> (\<forall>(b, v) \<in> set out. b mod w = 0))))"
proof (intro conjI impI)
  assume "rule = [] \<or> lower rule = ''none''"
  then show "resample_df df rule = Inr df" by (auto simp: resample_df_def)
next
  assume a: "rule \<noteq> [] \<and> lower rule \<noteq> ''none'' \<and> to_offset rule = Some w \<and> df \<noteq> []"
  then have w: "0 < w" and ne: "df \<noteq> []" by (auto dest: to_offset_pos)
  let ?out = "resample_mean w df"
  have r: "resample_df df rule = Inr ?out" using a by (simp add: resample_df_def)
  have inb: "\<forall>t \<in> fst ` set df.
               bucket_start origin w t \<le> t \<and> t < bucket_start origin w t + w
               \<and> (bucket_start origin w t - origin) mod w = 0"
    using bucket_start_le [OF w] bucket_start_gt [OF w] bucket_start_grid by blast
  have vals: "\<forall>b v. (b, v) \<in> set ?out \<longleftrightarrow>
        b \<in> bucket_start origin w ` fst ` set df
        \<and> v = mean (map snd (filter (\<lambda>r. b \<le> fst r \<and> fst r < b + w) df))
        \<and> v \<noteq> NaN"
  proof (intro allI)
    fix b v
    show "(b, v) \<in> set ?out \<longleftrightarrow>
        b \<in> bucket_start origin w ` fst ` set df
        \<and> v = mean (map snd (filter (\<lambda>r. b \<le> fst r \<and> fst r < b + w) df))
        \<and> v \<noteq> NaN"
    proof (cases "b \<in> bucket_start origin w ` fst ` set df")
      case True
      then have g: "(b - origin) mod w = 0" by (auto simp: bucket_start_grid)
      show ?thesis
        by (simp only: resample_mean_mem [OF ne assms] values_in_bucket [OF w g])
    next
      case False
      then show ?thesis by (simp add: resample_mean_mem [OF ne assms])
    qed
  qed
  have ep: "w dvd NS_PER_DAY \<longrightarrow> (\<forall>(b, v) \<in> set ?out. b mod w = 0)"
  proof (intro impI, clarify)
    fix b v assume d: "w dvd NS_PER_DAY" and m: "(b, v) \<in> set ?out"
    then have "w dvd origin" by (simp add: assms)
    from m have "b \<in> bucket_start origin w ` fst ` set df"
      by (simp add: resample_mean_mem [OF ne assms])
    then show "b mod w = 0"
      using bucket_start_epoch [OF w \<open>w dvd origin\<close>] by auto
  qed
  show "\<exists>out. resample_df df rule = Inr out
               \<and> sorted_wrt (<) (map fst out)
               \<and> (\<forall>t \<in> fst ` set df.
                     bucket_start origin w t \<le> t \<and> t < bucket_start origin w t + w
                     \<and> (bucket_start origin w t - origin) mod w = 0)
               \<and> (\<forall>b v. (b, v) \<in> set out \<longleftrightarrow>
                     b \<in> bucket_start origin w ` fst ` set df
                     \<and> v = mean (map snd (filter (\<lambda>r. b \<le> fst r \<and> fst r < b + w) df))
                     \<and> v \<noteq> NaN)
               \<and> (w dvd NS_PER_DAY \<longrightarrow> (\<forall>(b, v) \<in> set out. b mod w = 0))"
    using r inb vals ep resample_mean_strict [of w df] by blast
qed

text \<open>
  Three points within a quarter of an hour become one point at 00:00 with their mean;
  of the points of \<open>opposite_infinities\<close> only the one at 00:15 is left, since the mean of
  the bucket of 00:00 is NaN. The widths of some rules are given as well.
\<close>

theorem resample_df_buckets_witness:
  "''15min'' \<noteq> [] \<and> lower ''15min'' \<noteq> ''none''
   \<and> to_offset ''15min'' = Some 900000000000
   \<and> three_points \<noteq> []
   \<and> 900000000000 dvd NS_PER_DAY
   \<and> resample_df three_points ''15min'' = Inr [(1704067200000000000, Finite 3)]
   \<and> mean (map snd three_points) = Finite 3
   \<and> resample_df three_points ''None'' = Inr three_points
   \<and> resample_df opposite_infinities ''15min'' = Inr [(1704068100000000000, Finite 3)]
   \<and> to_offset ''1h30min'' = Some 5400000000000
   \<and> to_offset ''D'' = Some 86400000000000
   \<and> to_offset ''500ms'' = Some 500000000"
proof -
  have o: "1704067200000000000 = Min (fst ` set three_points) div NS_PER_DAY * NS_PER_DAY"
    unfolding three_points_def by code_simp
  have h: "''15min'' \<noteq> [] \<and> lower ''15min'' \<noteq> ''none''
           \<and> to_offset ''15min'' = Some 900000000000 \<and> three_points \<noteq> []"
    unfolding three_points_def by code_simp
  have n: "''None'' = [] \<or> lower ''None'' = ''none''"
    by code_simp
  have d: "(900000000000::int) dvd NS_PER_DAY"
    by code_simp
  have r: "resample_df three_points ''15min'' = Inr [(1704067200000000000, Finite 3)]"
    unfolding three_points_def by code_simp
  have m: "mean (map snd three_points) = Finite 3"
    unfolding three_points_def by code_simp
  have i: "resample_df opposite_infinities ''15min'' = Inr [(1704068100000000000, Finite 3)]"
    unfolding opposite_infinities_def by code_simp
  have t: "to_offset ''1h30min'' = Some 5400000000000
           \<and> to_offset ''D'' = Some 86400000000000
           \<and> to_offset ''500ms'' = Some 500000000"
    by code_simp
  from resample_df_buckets [OF o, of "''None''"] n
  have "resample_df three_points ''None'' = Inr three_points" by blast
  moreover from resample_df_buckets [OF o, of "''15min''" 900000000000] h
  have "\<exists>out. resample_df three_points ''15min'' = Inr out \<and> sorted_wrt (<) (map fst out)"
    by blast
  ultimately show ?thesis using h d r m i t by blast
qed

text \<open>
  The claim as it was stated fails for a width that does not divide the day: with buckets
  of 7 minutes the row at 00:05 is reported at 00:00, which is no multiple of 7 minutes
  since the epoch (the epoch-aligned bucket of 00:05 starts at 00:01).
\<close>

theorem resample_epoch_aligned_counterexample:
  "snd (main seven_minute_config 0 [([''A'', ''f.dat''], single_row_file)])
     = Inr \<lparr>meta = \<lparr>updated_at = ''1970-01-01T00:00:00Z'', count_series = 1,
                       meta_note = ''Resampled for display''\<rparr>,
              series = [\<lparr>station = ''A'', series_x = [''2024-01-01T00:00:00Z''],
                         series_y = [Finite 1], series_unit = ''kPa''\<rparr>]\<rparr>
   \<and> to_offset ''7min'' = Some 420000000000
   \<and> parse_iso ''2024-01-01T00:00:00Z'' = Some 1704067200000000000
   \<and> (1704067200000000000 :: int) mod 420000000000 \<noteq> 0
   \<and> parse_iso ''2024-01-01T00:05:00Z'' = Some 1704067500000000000
   \<and> strftime (1704067500000000000 div 420000000000 * 420000000000) = ''2024-01-01T00:01:00Z''"
  unfolding seven_minute_config_def single_row_file_def by code_simp

subsection \<open>Merging the files of a station\<close>




lemma dropna_values: "r \<in> set (dropna rs) \<Longrightarrow> snd r \<noteq> NaN"
  by (auto simp: dropna_def map_filter_def split: option.splits if_splits)



















subsection \<open>Files that cannot be parsed\<close>

lemma collect_file_log:
  "collect_file cfg (recs, lg) f
     = (fst (collect_file cfg (recs, []) f), lg @ snd (collect_file cfg (recs, []) f))"
  by (simp add: collect_file_def split: sum.splits)

lemma collect_log:
  "foldl (collect_file cfg) (recs, lg) fs
     = (fst (foldl (collect_file cfg) (recs, []) fs),
        lg @ snd (foldl (collect_file cfg) (recs, []) fs))"
proof (induction fs arbitrary: recs lg)
  case Nil
  then show ?case by simp
next
  case (Cons f fs)
  obtain r l where c: "collect_file cfg (recs, []) f = (r, l)" by (cases "collect_file cfg (recs, []) f")
  have "foldl (collect_file cfg) (recs, lg) (f # fs) = foldl (collect_file cfg) (r, lg @ l) fs"
    using collect_file_log [of cfg recs lg f] c by simp
  moreover have "foldl (collect_file cfg) (recs, []) (f # fs) = foldl (collect_file cfg) (r, l) fs"
    using c by simp
  ultimately show ?case
    using Cons.IH [of r "lg @ l"] Cons.IH [of r l] by simp
qed

lemma collect_file_failure:
  "load_dat cfg (snd f) = Inl e \<Longrightarrow>
   collect_file cfg (recs, lg) f
     = (recs, lg @ [''[WARN] Failed to parse '' @ path_str (fst f) @ '': '' @ message e])"
  by (simp add: collect_file_def)

lemma collect_failure:
  assumes "load_dat cfg text = Inl e"
    and "w = ''[WARN] Failed to parse '' @ path_str path @ '': '' @ message e"
  shows "\<exists>recs p1 p2.
           foldl (collect_file cfg) ([], []) (fs1 @ fs2) = (recs, p1 @ p2)
           \<and> foldl (collect_file cfg) ([], []) (fs1 @ (path, text) # fs2) = (recs, p1 @ [w] @ p2)"
proof -
  obtain r1 l1 where a: "foldl (collect_file cfg) ([], []) fs1 = (r1, l1)"
    by (cases "foldl (collect_file cfg) ([], []) fs1")
  obtain r2 l2 where b: "foldl (collect_file cfg) (r1, []) fs2 = (r2, l2)"
    by (cases "foldl (collect_file cfg) (r1, []) fs2")
  have "foldl (collect_file cfg) ([], []) (fs1 @ fs2) = (r2, l1 @ l2)"
    using a b collect_log [of cfg r1 l1 fs2] by simp
  moreover have "foldl (collect_file cfg) ([], []) (fs1 @ (path, text) # fs2)
                   = (r2, l1 @ [w] @ l2)"
    using a b collect_log [of cfg r1 "l1 @ [w]" fs2]
      collect_file_failure [of cfg "(path, text)" e r1 l1] assms
    by simp
  ultimately show ?thesis by blast
qed

text \<open>
  Claim C8. When \<^verbatim>\<open>load_dat\<close> raises \<open>e\<close> for a file, the run with that file ends as the run
  without it does (the same document is written, or the second loop ends both in the
  same way), and it prints what the run without the file prints and in addition, at the
  place of the file, the warning with the path of the file and the message of \<open>e\<close>.
  \<^verbatim>\<open>main\<close> is a total function: the first loop never ends the run.
\<close>

theorem parse_failure_skipped:
  assumes "load_dat cfg text = Inl e"
    and "w = ''[WARN] Failed to parse '' @ path_str path @ '': '' @ message e"
  shows "snd (main cfg now (fs1 @ (path, text) # fs2)) = snd (main cfg now (fs1 @ fs2))
       \<and> (\<exists>p1 p2. fst (main cfg now (fs1 @ fs2)) = p1 @ p2
                   \<and> fst (main cfg now (fs1 @ (path, text) # fs2)) = p1 @ [w] @ p2)"
proof -
  from collect_failure [OF assms, of fs1 fs2] obtain recs p1 p2 where
    a: "foldl (collect_file cfg) ([], []) (fs1 @ fs2) = (recs, p1 @ p2)" and
    b: "foldl (collect_file cfg) ([], []) (fs1 @ (path, text) # fs2) = (recs, p1 @ [w] @ p2)"
    by blast
  show ?thesis
  proof (cases "build_series cfg recs")
    case (Inl x)
    have "fst (main cfg now (fs1 @ fs2)) = p1 @ p2"
      and "fst (main cfg now (fs1 @ (path, text) # fs2)) = p1 @ [w] @ p2"
      and "snd (main cfg now (fs1 @ (path, text) # fs2)) = snd (main cfg now (fs1 @ fs2))"
      using Inl by (simp_all only: main_def a b Let_def split sum.case fst_conv snd_conv)
    then show ?thesis by blast
  next
    case (Inr ss)
    let ?ok = "''[OK] Wrote '' @ OUT_DIR @ ''/all_series.json with '' @ show_nat (length ss) @ '' series.''"
    have "fst (main cfg now (fs1 @ fs2)) = p1 @ (p2 @ [?ok])"
      and "fst (main cfg now (fs1 @ (path, text) # fs2)) = p1 @ [w] @ (p2 @ [?ok])"
      and "snd (main cfg now (fs1 @ (path, text) # fs2)) = snd (main cfg now (fs1 @ fs2))"
      using Inr by (simp_all only: main_def a b Let_def split sum.case fst_conv snd_conv append_assoc)
    then show ?thesis by blast
  qed
qed

theorem parse_failure_skipped_witness:
  "load_dat default_config comment_only_file = Inl EmptyDataError
   \<and> fst (main default_config 0
            [([''A'', ''f.dat''], duplicate_file), ([''B'', ''g.dat''], comment_only_file),
             ([''A'', ''h.dat''], single_row_file)])
       = [''[WARN] Failed to parse data/raw/B/g.dat: No columns to parse from file'',
          ''[OK] Wrote site/data/all_series.json with 1 series.'']
   \<and> snd (main default_config 0
            [([''A'', ''f.dat''], duplicate_file), ([''B'', ''g.dat''], comment_only_file),
             ([''A'', ''h.dat''], single_row_file)])
       = snd (main default_config 0
            [([''A'', ''f.dat''], duplicate_file), ([''A'', ''h.dat''], single_row_file)])"
proof -
  have l: "load_dat default_config comment_only_file = Inl EmptyDataError"
    unfolding default_config_def comment_only_file_def by code_simp
  have w: "''[WARN] Failed to parse data/raw/B/g.dat: No columns to parse from file''
             = ''[WARN] Failed to parse '' @ path_str [''B'', ''g.dat''] @ '': ''
               @ message EmptyDataError"
    by code_simp
  have p: "fst (main default_config 0
             [([''A'', ''f.dat''], duplicate_file), ([''B'', ''g.dat''], comment_only_file),
              ([''A'', ''h.dat''], single_row_file)])
           = [''[WARN] Failed to parse data/raw/B/g.dat: No columns to parse from file'',
              ''[OK] Wrote site/data/all_series.json with 1 series.'']"
    unfolding default_config_def comment_only_file_def duplicate_file_def single_row_file_def
    by code_simp
  from parse_failure_skipped [OF l w, of 0 "[([''A'', ''f.dat''], duplicate_file)]"
      "[([''A'', ''h.dat''], single_row_file)]"]
  have "snd (main default_config 0
             ([([''A'', ''f.dat''], duplicate_file)] @ ([''B'', ''g.dat''], comment_only_file)
              # [([''A'', ''h.dat''], single_row_file)]))
        = snd (main default_config 0
             ([([''A'', ''f.dat''], duplicate_file)] @ [([''A'', ''h.dat''], single_row_file)]))"
    by blast
  with l p show ?thesis by simp
qed

subsection \<open>The number of series\<close>

text \<open>
  Claim C5 (not met by the code). \<^verbatim>\<open>meta.count_series\<close> is the length of the list of
  series, and a station enters that list with every frame that resampling leaves, also
  an empty one: line 93 skips a file without a valid row, but nothing is tested after
  line 106. For a file with the values \<^verbatim>\<open>inf\<close> and \<^verbatim>\<open>-inf\<close> at 00:00, \<^verbatim>\<open>load_dat\<close>
  returns two rows; their mean is NaN, the mean of the bucket of 00:00 is NaN, and
  \<^verbatim>\<open>dropna\<close> removes the bucket: the station \<^verbatim>\<open>A\<close> is written with no point at all, and
  it is counted.
\<close>

theorem count_series_counts_empty_series:
  "main default_config 0 [([''A'', ''f.dat''], infinite_file)]
     = ([''[OK] Wrote site/data/all_series.json with 1 series.''],
        Inr \<lparr>meta = \<lparr>updated_at = ''1970-01-01T00:00:00Z'', count_series = 1,
                      meta_note = ''Resampled for display''\<rparr>,
             series = [\<lparr>station = ''A'', series_x = [], series_y = [],
                        series_unit = ''kPa''\<rparr>]\<rparr>)
   \<and> load_dat default_config infinite_file
       = Inr [(1704067200000000000, PosInf), (1704067200000000000, NegInf)]
   \<and> mean [PosInf, NegInf] = NaN"
  unfolding default_config_def infinite_file_def by code_simp

subsection \<open>The scenario of the specification\<close>

text \<open>
  Claim C1. For the file of the scenario (a comment line, the header \<^verbatim>\<open>time,pressure\<close> and
  the rows \<open>10.0\<close> and \<open>20.0\<close> at 00:00 and \<open>30.0\<close> at 00:15), read as psi and not
  resampled, the run writes for the station of the file the timestamps 00:00 and 00:15
  and the values \<open>15 * 6.89475729\<close> and \<open>30 * 6.89475729\<close> rounded to four decimals,
  which are \<open>103.4214\<close> and \<open>206.8427\<close>: the two rows at 00:00 are averaged, and every
  value is multiplied by the constant before the rounding.
\<close>

theorem scenario_psi_raw_cadence:
  "map_sum id series
     (snd (main raw_cadence_config now [([''MJ03F'', ''PARO1'', ''a.dat''], scenario_file)]))
     = Inr [\<lparr>station = ''MJ03F/PARO1'',
             series_x = [''2024-01-01T00:00:00Z'', ''2024-01-01T00:15:00Z''],
             series_y = [round4 (Finite (15 * PSI_TO_KPA)), round4 (Finite (30 * PSI_TO_KPA))],
             series_unit = ''kPa''\<rparr>]
   \<and> round4 (Finite (15 * PSI_TO_KPA)) = Finite 103.4214
   \<and> round4 (Finite (30 * PSI_TO_KPA)) = Finite 206.8427
   \<and> round4 (Finite (15 * PSI_TO_KPA))
       = round4 (mean [fmul (Finite 10) (Finite PSI_TO_KPA), fmul (Finite 20) (Finite PSI_TO_KPA)])"
  unfolding raw_cadence_config_def scenario_file_def by code_simp

theorem scenario_psi_raw_cadence_witness:
  "map_sum id series
     (snd (main raw_cadence_config 0 [([''MJ03F'', ''PARO1'', ''a.dat''], scenario_file)]))
     = Inr [\<lparr>station = ''MJ03F/PARO1'',
             series_x = [''2024-01-01T00:00:00Z'', ''2024-01-01T00:15:00Z''],
             series_y = [Finite 103.4214, Finite 206.8427],
             series_unit = ''kPa''\<rparr>]"
  using scenario_psi_raw_cadence [of 0] by simp

subsection \<open>The first line of a file\<close>

lemma tokenize_skip:
  assumes "\<forall>l \<in> set pre. is_empty_line (check_comments (split l))"
    and "\<not> is_empty_line (check_comments (split l0))"
  shows "tokenize split (pre @ l0 # rest) = check_comments (split l0) # tokenize split rest"
  using assms by (simp add: tokenize_def filter_empty_conv)

lemma frame_of_lines_Cons:
  assumes "frame_of_lines (hdr # body) = Inr df"
  shows "columns df = hdr
       \<and> rows df = map (\<lambda>r. pad (length hdr) (drop (fst (implicit_index (length hdr) body)) r))
                     (snd (implicit_index (length hdr) body))"
  using assms by (auto simp: frame_of_lines_def Let_def split_beta split: option.splits)

lemma length_implicit_index: "length (snd (implicit_index n body)) \<le> length body"
  by (auto simp: implicit_index_def split: list.splits)

lemma length_tokenize: "length (tokenize split ls) \<le> length ls"
  using length_filter_le [of "\<lambda>l. \<not> is_empty_line l" "map (\<lambda>l. check_comments (split l)) ls"]
  by (simp add: tokenize_def)

lemma length_dropna: "length (dropna rs) \<le> length rs"
  by (simp add: dropna_def map_filter_def)

lemma length_to_datetime: "length (to_datetime col) = length col"
  by (simp add: to_datetime_def Let_def)

lemma length_to_numeric: "length (to_numeric col) = length col"
  by (simp add: to_numeric_def)

lemma length_select_rows: "length (select_rows cfg t v rs) \<le> length rs"
proof -
  have "length (select_rows cfg t v rs)
          = length (dropna (zip (to_datetime (map (\<lambda>r. cell r t) rs))
                                (to_numeric (map (\<lambda>r. cell r v) rs))))"
    by (simp add: select_rows_def Let_def)
  also have "\<dots> \<le> length (zip (to_datetime (map (\<lambda>r. cell r t) rs))
                               (to_numeric (map (\<lambda>r. cell r v) rs)))"
    by (rule length_dropna)
  also have "\<dots> = length rs"
    by (simp add: length_to_datetime length_to_numeric)
  finally show ?thesis .
qed

text \<open>
  Claim C10. Let the lines of a file be the lines \<open>pre\<close>, a line \<open>l0\<close> and the lines
  \<open>rest\<close>, where the reader skips every line of \<open>pre\<close> (a comment or an empty line) and
  does not skip \<open>l0\<close>, and let the file be read as the frame \<open>df\<close> with the guessed
  delimiter, or with white space when the first reading raises; \<open>split\<close> cuts a line
  into cells the way that reading does. Then the cells of \<open>l0\<close> are the labels of \<open>df\<close>,
  whether that line is a header or not; the rows of \<open>df\<close> are made of the lines of
  \<open>rest\<close> alone; \<^verbatim>\<open>load_dat\<close> parses its result from those rows, choosing the two columns
  by the cells of \<open>l0\<close>; so the result has at most as many rows as \<open>rest\<close> has lines, and a
  file without a header loses the row of its first line.
\<close>

theorem first_line_is_header:
  assumes "file = pre @ l0 # rest"
    and "(read_csv_sniff file = Inr df \<and> sniff (first_valid_line file) = Some d
            \<and> split = split_on d)
         \<or> (read_csv_sniff file = Inl e \<and> read_csv_whitespace file = Inr df
            \<and> split = (\<lambda>l. split_ws (strip l)))"
    and "\<forall>l \<in> set pre. is_empty_line (check_comments (split l))"
    and "\<not> is_empty_line (check_comments (split l0))"
  shows "read_with_fallback file = Inr df
       \<and> columns df = check_comments (split l0)
       \<and> rows df
           = map (\<lambda>r. pad (length (columns df))
                        (drop (fst (implicit_index (length (columns df)) (tokenize split rest))) r))
               (snd (implicit_index (length (columns df)) (tokenize split rest)))
       \<and> load_dat cfg file
           = Inr (if df_empty df then []
                  else select_rows cfg (fst (find_cols (columns df)))
                         (snd (find_cols (columns df))) (rows df))
       \<and> length (rows df) \<le> length rest
       \<and> (\<forall>out. load_dat cfg file = Inr out \<longrightarrow> length out \<le> length rest)"
proof -
  from assms(2) have rd: "read_with_fallback file = Inr df"
    and fl: "frame_of_lines (tokenize split file) = Inr df"
    by (auto simp: read_with_fallback_def read_csv_sniff_def read_csv_whitespace_def)
  have t: "tokenize split file = check_comments (split l0) # tokenize split rest"
    unfolding assms(1) using assms(3,4) by (rule tokenize_skip)
  from frame_of_lines_Cons [OF fl [unfolded t]]
  have c: "columns df = check_comments (split l0)"
    and rw: "rows df
           = map (\<lambda>r. pad (length (columns df))
                        (drop (fst (implicit_index (length (columns df)) (tokenize split rest))) r))
               (snd (implicit_index (length (columns df)) (tokenize split rest)))"
    by simp_all
  have ld: "load_dat cfg file
           = Inr (if df_empty df then []
                  else select_rows cfg (fst (find_cols (columns df)))
                         (snd (find_cols (columns df))) (rows df))"
    using rd by (simp add: load_dat_def split_beta)
  have "length (rows df) \<le> length (tokenize split rest)"
    using length_implicit_index [of "length (columns df)" "tokenize split rest"]
    by (simp add: rw)
  then have lr: "length (rows df) \<le> length rest"
    using length_tokenize [of split rest] by simp
  have "\<forall>out. load_dat cfg file = Inr out \<longrightarrow> length out \<le> length rest"
    using lr length_select_rows [of cfg "fst (find_cols (columns df))"
        "snd (find_cols (columns df))" "rows df"]
    by (auto simp: ld)
  with rd c rw ld lr show ?thesis by blast
qed

text \<open>
  A file without a header: a comment line and two lines of data. The first line of data
  gives the labels, and the only row of the result is the second one; of the file with
  the first line of data alone nothing is left.
\<close>

theorem first_line_is_header_witness:
  "headerless_file
     = [''# readings''] @ ''2024-01-01T00:00:00Z,10.0'' # [''2024-01-01T00:15:00Z,20.0'']
   \<and> read_csv_sniff headerless_file = Inr headerless_frame
   \<and> sniff (first_valid_line headerless_file) = Some (CHR '','')
   \<and> columns headerless_frame = check_comments (split_on (CHR '','') ''2024-01-01T00:00:00Z,10.0'')
   \<and> columns headerless_frame = [''2024-01-01T00:00:00Z'', ''10.0'']
   \<and> rows headerless_frame = [[''2024-01-01T00:15:00Z'', ''20.0'']]
   \<and> load_dat kpa_config headerless_file = Inr [(1704068100000000000, Finite 20)]
   \<and> snd (main kpa_config 0 [([''A'', ''f.dat''], headerless_file)])
       = Inr \<lparr>meta = \<lparr>updated_at = ''1970-01-01T00:00:00Z'', count_series = 1,
                         meta_note = ''Resampled for display''\<rparr>,
                series = [\<lparr>station = ''A'', series_x = [''2024-01-01T00:15:00Z''],
                           series_y = [Finite 20], series_unit = ''kPa''\<rparr>]\<rparr>
   \<and> load_dat kpa_config [''2024-01-01T00:00:00Z,10.0''] = Inr []"
proof -
  have f: "headerless_file
     = [''# readings''] @ ''2024-01-01T00:00:00Z,10.0'' # [''2024-01-01T00:15:00Z,20.0'']"
    by (simp add: headerless_file_def)
  have r: "read_csv_sniff headerless_file = Inr headerless_frame"
    and d: "sniff (first_valid_line headerless_file) = Some (CHR '','')"
    unfolding headerless_file_def headerless_frame_def by code_simp+
  have p: "\<forall>l \<in> set [''# readings'']. is_empty_line (check_comments (split_on (CHR '','') l))"
    by code_simp
  have n: "\<not> is_empty_line (check_comments (split_on (CHR '','') ''2024-01-01T00:00:00Z,10.0''))"
    by code_simp
  have c: "columns headerless_frame = [''2024-01-01T00:00:00Z'', ''10.0'']"
    and w: "rows headerless_frame = [[''2024-01-01T00:15:00Z'', ''20.0'']]"
    by (simp_all add: headerless_frame_def)
  have s: "(if df_empty headerless_frame then []
            else select_rows kpa_config (fst (find_cols (columns headerless_frame)))
                   (snd (find_cols (columns headerless_frame))) (rows headerless_frame))
           = [(1704068100000000000, Finite 20)]"
    unfolding kpa_config_def headerless_frame_def by code_simp
  have m: "snd (main kpa_config 0 [([''A'', ''f.dat''], headerless_file)])
       = Inr \<lparr>meta = \<lparr>updated_at = ''1970-01-01T00:00:00Z'', count_series = 1,
                         meta_note = ''Resampled for display''\<rparr>,
                series = [\<lparr>station = ''A'', series_x = [''2024-01-01T00:15:00Z''],
                           series_y = [Finite 20], series_unit = ''kPa''\<rparr>]\<rparr>"
    unfolding kpa_config_def headerless_file_def by code_simp
  have o: "load_dat kpa_config [''2024-01-01T00:00:00Z,10.0''] = Inr []"
    unfolding kpa_config_def by code_simp
  from first_line_is_header [OF f _ p n, of headerless_frame "CHR '',''" _ kpa_config] r d
  have "columns headerless_frame
          = check_comments (split_on (CHR '','') ''2024-01-01T00:00:00Z,10.0'')
      \<and> load_dat kpa_config headerless_file
          = Inr (if df_empty headerless_frame then []
                 else select_rows kpa_config (fst (find_cols (columns headerless_frame)))
                        (snd (find_cols (columns headerless_frame))) (rows headerless_frame))"
    by blast
  with s f r d c w m o show ?thesis by simp
qed

subsection \<open>The note of the document and the time zone\<close>

text \<open>
  Claim C4 (not met by the code). The rule \<^verbatim>\<open>"None"\<close> switches the resampling off, as the
  comment at \<^verbatim>\<open>RESAMPLE_RULE\<close> says: \<^verbatim>\<open>resample_df\<close> returns every frame unchanged, and the
  points at 00:00 and 00:05 are both written. But the note is chosen by the truth value
  of the rule, and \<^verbatim>\<open>"None"\<close> is a non-empty string: the note of that run says
  \<^verbatim>\<open>Resampled for display\<close>.
\<close>

theorem note_with_rule_None:
  "resample_df df (RESAMPLE_RULE raw_cadence_config) = Inr df
   \<and> snd (main raw_cadence_config 0 [([''A'', ''f.dat''], duplicate_file)])
       = Inr \<lparr>meta = \<lparr>updated_at = ''1970-01-01T00:00:00Z'', count_series = 1,
                         meta_note = ''Resampled for display''\<rparr>,
                series = [\<lparr>station = ''A'',
                           series_x = [''2024-01-01T00:00:00Z'', ''2024-01-01T00:05:00Z''],
                           series_y = [Finite 103.4214, Finite 413.6854], series_unit = ''kPa''\<rparr>]\<rparr>"
proof
  have "lower (RESAMPLE_RULE raw_cadence_config) = ''none''"
    unfolding raw_cadence_config_def by code_simp
  then show "resample_df df (RESAMPLE_RULE raw_cadence_config) = Inr df"
    by (simp add: resample_df_def)
  show "snd (main raw_cadence_config 0 [([''A'', ''f.dat''], duplicate_file)])
       = Inr \<lparr>meta = \<lparr>updated_at = ''1970-01-01T00:00:00Z'', count_series = 1,
                         meta_note = ''Resampled for display''\<rparr>,
                series = [\<lparr>station = ''A'',
                           series_x = [''2024-01-01T00:00:00Z'', ''2024-01-01T00:05:00Z''],
                           series_y = [Finite 103.4214, Finite 413.6854], series_unit = ''kPa''\<rparr>]\<rparr>"
    unfolding raw_cadence_config_def duplicate_file_def by code_simp
qed

lemma select_rows_LOCAL_TZ:
  "select_rows (cfg\<lparr>LOCAL_TZ := z\<rparr>) tcol vcol rs = select_rows cfg tcol vcol rs"
  by (simp add: select_rows_def)

text \<open>
  Claim C9 (not met by the code). \<^verbatim>\<open>LOCAL_TZ\<close> is never read: \<^verbatim>\<open>load_dat\<close> returns the same
  frame for every value of it. With the zone of Los Angeles configured, a timestamp
  without an offset, 2024-01-01T00:00:00, is still taken as UTC and written as
  2024-01-01T00:00:00Z, where the zone would give 2024-01-01T08:00:00Z.
\<close>

theorem load_dat_ignores_LOCAL_TZ:
  "load_dat (cfg\<lparr>LOCAL_TZ := z\<rparr>) file = load_dat cfg file
   \<and> load_dat los_angeles_config naive_time_file = Inr [(1704067200000000000, Finite 10)]
   \<and> strftime 1704067200000000000 = ''2024-01-01T00:00:00Z''"
proof (intro conjI)
  show "load_dat (cfg\<lparr>LOCAL_TZ := z\<rparr>) file = load_dat cfg file"
    by (simp add: load_dat_def select_rows_LOCAL_TZ split_beta split: sum.splits)
  show "load_dat los_angeles_config naive_time_file = Inr [(1704067200000000000, Finite 10)]"
    unfolding los_angeles_config_def naive_time_file_def by code_simp
  show "strftime 1704067200000000000 = ''2024-01-01T00:00:00Z''"
    by code_simp
qed

end
